theory Spec2Isabelle
  imports Complex_Main
begin

section \<open>The renderfx math library: vectors, matrices, quaternions, geometry\<close>

text \<open>
  The library is a set of C++ class templates over a scalar type \<open>T\<close>
  (\<open>float\<close>, \<open>double\<close>). The embedding instantiates \<open>T\<close> with the real
  numbers: every arithmetic operation of the source is the exact operation on
  \<^typ>\<open>real\<close>, and rounding is not modelled. The constant
  \<open>std::numeric_limits<T>::epsilon()\<close> depends on \<open>T\<close> and is therefore a
  parameter \<open>eps\<close> of every function whose source reads it. \<open>Rect\<close> only
  uses the ring operations and the order, so it is kept polymorphic.

  A C++ exception is a value of type \<open>error\<close>; a function that may throw returns
  \<open>error + 'a\<close>, with \<open>Inl\<close> for the exception.
\<close>

subsection \<open>Error conditions\<close>

text \<open>
  \<open>DivisionByZero\<close> is \<open>std::invalid_argument("Division by zero in ...")\<close>,
  \<open>DegenerateNormalize\<close> is \<open>std::domain_error("Cannot normalize zero-length ...")\<close>
  and \<open>std::runtime_error("Cannot normalize zero quaternion")\<close>,
  \<open>SingularMatrix\<close> is \<open>std::runtime_error("Matrix is singular and cannot be inverted.")\<close>,
  \<open>IndexOutOfRange\<close> is \<open>std::out_of_range\<close>.
\<close>

datatype error = DivisionByZero | DegenerateNormalize | SingularMatrix | IndexOutOfRange

text \<open>
  \<open>std::numeric_limits<float>::epsilon()\<close>, the value of \<open>eps\<close> for the
  \<open>float\<close> instances (\<open>Planef\<close>, \<open>Frustumf\<close>, \<open>Matrix4f\<close>, ...).
\<close>

definition epsilon_float :: real where
  "epsilon_float = 1 / 2 ^ 23"

text \<open>
  In-place member functions are statements over the object they mutate: they
  return the exception thrown, if any, together with the object as the statement
  left it.
\<close>

type_synonym 's stmt = "'s \<Rightarrow> error option \<times> 's"

definition throw_when :: "bool \<Rightarrow> error \<Rightarrow> 's stmt" where
  "throw_when c e s = (if c then (Some e, s) else (None, s))"

definition assign :: "('s \<Rightarrow> 's) \<Rightarrow> 's stmt" where
  "assign f s = (None, f s)"

definition seq :: "'s stmt \<Rightarrow> 's stmt \<Rightarrow> 's stmt" where
  "seq f g s = (case f s of (Some e, s') \<Rightarrow> (Some e, s') | (None, s') \<Rightarrow> g s')"

subsection \<open>Vector2\<close>

record vec2 =
  x2 :: real
  y2 :: real

definition Vector2_lengthSquared :: "vec2 \<Rightarrow> real" where
  "Vector2_lengthSquared v = x2 v * x2 v + y2 v * y2 v"

definition Vector2_length :: "vec2 \<Rightarrow> real" where
  "Vector2_length v = sqrt (Vector2_lengthSquared v)"

text \<open>\<open>Vector2::operator/=\<close>: the guard, then \<open>x /= s; y /= s;\<close>.\<close>

definition Vector2_div_assign :: "real \<Rightarrow> real \<Rightarrow> vec2 stmt" where
  "Vector2_div_assign eps s =
     seq (throw_when (\<bar>s\<bar> < eps) DivisionByZero)
    (seq (assign (\<lambda>v. v\<lparr>x2 := x2 v / s\<rparr>))
         (assign (\<lambda>v. v\<lparr>y2 := y2 v / s\<rparr>)))"

text \<open>\<open>Vector2::normalize\<close>: \<open>len\<close> is read before the guard, then \<open>*this /= len\<close>.\<close>

definition Vector2_normalize :: "real \<Rightarrow> vec2 stmt" where
  "Vector2_normalize eps v =
     (let len = Vector2_length v
      in seq (throw_when (len < eps) DegenerateNormalize) (Vector2_div_assign eps len) v)"

subsection \<open>Vector3\<close>

record vec3 =
  x3 :: real
  y3 :: real
  z3 :: real

definition Vector3 :: "real \<Rightarrow> real \<Rightarrow> real \<Rightarrow> vec3" where
  "Vector3 a b c = \<lparr>x3 = a, y3 = b, z3 = c\<rparr>"

text \<open>\<open>operator[]\<close> (const): \<open>i < 0 || i > 2\<close> throws, else \<open>(&x)[i]\<close>.\<close>

definition Vector3_index :: "vec3 \<Rightarrow> int \<Rightarrow> error + real" where
  "Vector3_index v i =
     (if i < 0 \<or> i > 2 then Inl IndexOutOfRange
      else Inr (if i = 0 then x3 v else if i = 1 then y3 v else z3 v))"

text \<open>\<open>operator[]\<close> (non-const) used as the target of an assignment: \<open>v[i] = a\<close>.\<close>

definition Vector3_index_assign :: "int \<Rightarrow> real \<Rightarrow> vec3 \<Rightarrow> error + vec3" where
  "Vector3_index_assign i a v =
     (if i < 0 \<or> i > 2 then Inl IndexOutOfRange
      else Inr (if i = 0 then v\<lparr>x3 := a\<rparr> else if i = 1 then v\<lparr>y3 := a\<rparr> else v\<lparr>z3 := a\<rparr>))"


definition Vector3_sub :: "vec3 \<Rightarrow> vec3 \<Rightarrow> vec3" where
  "Vector3_sub u v = Vector3 (x3 u - x3 v) (y3 u - y3 v) (z3 u - z3 v)"


definition Vector3_div :: "real \<Rightarrow> vec3 \<Rightarrow> real \<Rightarrow> error + vec3" where
  "Vector3_div eps v s =
     (if \<bar>s\<bar> < eps then Inl DivisionByZero
      else Inr (Vector3 (x3 v / s) (y3 v / s) (z3 v / s)))"

text \<open>\<open>Vector3::operator/=\<close>: the guard, then \<open>x /= s; y /= s; z /= s;\<close>.\<close>

definition Vector3_div_assign :: "real \<Rightarrow> real \<Rightarrow> vec3 stmt" where
  "Vector3_div_assign eps s =
     seq (throw_when (\<bar>s\<bar> < eps) DivisionByZero)
    (seq (assign (\<lambda>v. v\<lparr>x3 := x3 v / s\<rparr>))
    (seq (assign (\<lambda>v. v\<lparr>y3 := y3 v / s\<rparr>))
         (assign (\<lambda>v. v\<lparr>z3 := z3 v / s\<rparr>))))"

definition Vector3_dot :: "vec3 \<Rightarrow> vec3 \<Rightarrow> real" where
  "Vector3_dot u v = x3 u * x3 v + y3 u * y3 v + z3 u * z3 v"

definition Vector3_lengthSquared :: "vec3 \<Rightarrow> real" where
  "Vector3_lengthSquared v = x3 v * x3 v + y3 v * y3 v + z3 v * z3 v"

definition Vector3_length :: "vec3 \<Rightarrow> real" where
  "Vector3_length v = sqrt (Vector3_lengthSquared v)"

definition Vector3_normalized :: "real \<Rightarrow> vec3 \<Rightarrow> error + vec3" where
  "Vector3_normalized eps v =
     (let len = Vector3_length v
      in if len < eps then Inl DegenerateNormalize else Vector3_div eps v len)"


definition Vector3_normalize :: "real \<Rightarrow> vec3 stmt" where
  "Vector3_normalize eps v =
     (let len = Vector3_length v
      in seq (throw_when (len < eps) DegenerateNormalize) (Vector3_div_assign eps len) v)"



subsection \<open>Rect\<close>

record 'a rect =
  rect_x :: 'a
  rect_y :: 'a
  width :: 'a
  height :: 'a

text \<open>The default constructor \<open>Rect()\<close>.\<close>

definition Rect_default :: "('a::linordered_idom) rect" where
  "Rect_default = \<lparr>rect_x = 0, rect_y = 0, width = 0, height = 0\<rparr>"

definition right :: "('a::linordered_idom) rect \<Rightarrow> 'a" where
  "right r = rect_x r + width r"

definition bottom :: "('a::linordered_idom) rect \<Rightarrow> 'a" where
  "bottom r = rect_y r + height r"

definition Rect_intersects :: "('a::linordered_idom) rect \<Rightarrow> 'a rect \<Rightarrow> bool" where
  "Rect_intersects r other =
     (\<not> (right r \<le> rect_x other \<or> right other \<le> rect_x r \<or>
         bottom r \<le> rect_y other \<or> bottom other \<le> rect_y r))"

text \<open>\<open>std::max(a, b)\<close> is \<open>(a < b) ? b : a\<close>, \<open>std::min(a, b)\<close> is \<open>(b < a) ? b : a\<close>.\<close>

definition std_max :: "('a::linorder) \<Rightarrow> 'a \<Rightarrow> 'a" where
  "std_max a b = (if a < b then b else a)"

definition std_min :: "('a::linorder) \<Rightarrow> 'a \<Rightarrow> 'a" where
  "std_min a b = (if b < a then b else a)"

definition Rect_intersection :: "('a::linordered_idom) rect \<Rightarrow> 'a rect \<Rightarrow> 'a rect" where
  "Rect_intersection r other =
     (let intersectLeft = std_max (rect_x r) (rect_x other);
          intersectTop = std_max (rect_y r) (rect_y other);
          intersectRight = std_min (right r) (right other);
          intersectBottom = std_min (bottom r) (bottom other)
      in if intersectLeft < intersectRight \<and> intersectTop < intersectBottom
         then \<lparr>rect_x = intersectLeft, rect_y = intersectTop,
               width = intersectRight - intersectLeft,
               height = intersectBottom - intersectTop\<rparr>
         else Rect_default)"

subsection \<open>Ray, AABB, Plane, Sphere\<close>

definition bind_err :: "error + 'a \<Rightarrow> ('a \<Rightarrow> error + 'b) \<Rightarrow> error + 'b" where
  "bind_err r f = (case r of Inl e \<Rightarrow> Inl e | Inr a \<Rightarrow> f a)"

record ray =
  origin :: vec3
  direction :: vec3

text \<open>\<open>Ray(origin, direction)\<close> stores \<open>direction.normalized()\<close>.\<close>

definition Ray :: "real \<Rightarrow> vec3 \<Rightarrow> vec3 \<Rightarrow> error + ray" where
  "Ray eps orig dir =
     bind_err (Vector3_normalized eps dir) (\<lambda>d. Inr \<lparr>origin = orig, direction = d\<rparr>)"

record aabb =
  aabb_min :: vec3
  aabb_max :: vec3

text \<open>
  \<open>tMin\<close> and \<open>tMax\<close> start at \<open>-infinity\<close> and \<open>+infinity\<close>, so the two
  output parameters range over the scalars extended by the two infinities.
\<close>

datatype xreal = NegInf | Fin real | PosInf

fun xreal_less :: "xreal \<Rightarrow> xreal \<Rightarrow> bool" where
  "xreal_less NegInf NegInf = False"
| "xreal_less NegInf _ = True"
| "xreal_less (Fin a) (Fin b) = (a < b)"
| "xreal_less (Fin a) PosInf = True"
| "xreal_less (Fin a) NegInf = False"
| "xreal_less PosInf _ = False"

definition xreal_max :: "xreal \<Rightarrow> xreal \<Rightarrow> xreal" where
  "xreal_max a b = (if xreal_less a b then b else a)"

definition xreal_min :: "xreal \<Rightarrow> xreal \<Rightarrow> xreal" where
  "xreal_min a b = (if xreal_less b a then b else a)"

text \<open>
  One iteration of the loop of \<open>AABB::intersects\<close> for axis \<open>i\<close>. The Boolean
  of the result is \<open>False\<close> when the iteration executes \<open>return false\<close>; the
  two other components are \<open>tMin\<close> and \<open>tMax\<close> as the iteration leaves them.
\<close>

definition AABB_intersects_axis ::
  "real \<Rightarrow> aabb \<Rightarrow> ray \<Rightarrow> int \<Rightarrow> xreal \<times> xreal \<Rightarrow> error + (bool \<times> xreal \<times> xreal)" where
  "AABB_intersects_axis eps box r i tt =
     (case tt of (tMin, tMax) \<Rightarrow>
      bind_err (Vector3_index (direction r) i) (\<lambda>d.
      bind_err (Vector3_index (origin r) i) (\<lambda>orig.
      bind_err (Vector3_index (aabb_min box) i) (\<lambda>lo.
      bind_err (Vector3_index (aabb_max box) i) (\<lambda>hi.
        if \<bar>d\<bar> < eps then
          (if orig < lo \<or> orig > hi then Inr (False, tMin, tMax) else Inr (True, tMin, tMax))
        else
          (let t1 = (lo - orig) / d;
               t2 = (hi - orig) / d;
               (t1, t2) = (if t1 > t2 then (t2, t1) else (t1, t2));
               tMin = xreal_max tMin (Fin t1);
               tMax = xreal_min tMax (Fin t2)
           in if xreal_less tMax tMin then Inr (False, tMin, tMax)
              else Inr (True, tMin, tMax)))))))"

fun AABB_intersects_loop ::
  "real \<Rightarrow> aabb \<Rightarrow> ray \<Rightarrow> int list \<Rightarrow> xreal \<times> xreal \<Rightarrow> error + (bool \<times> xreal \<times> xreal)" where
  "AABB_intersects_loop eps box r [] tt = Inr (True, tt)"
| "AABB_intersects_loop eps box r (i # axes) tt =
     (case AABB_intersects_axis eps box r i tt of
        Inl e \<Rightarrow> Inl e
      | Inr (False, tt') \<Rightarrow> Inr (False, tt')
      | Inr (True, tt') \<Rightarrow> AABB_intersects_loop eps box r axes tt')"

text \<open>
  \<open>AABB::intersects(ray, tMin, tMax)\<close>: the result and the two output
  parameters. The four reads \<open>ray.direction[i]\<close>, \<open>ray.origin[i]\<close>,
  \<open>min[i]\<close>, \<open>max[i]\<close> use the same \<open>i\<close>, so they throw together or
  not at all, and the model reads them at the head of the iteration. The function
  is \<open>noexcept\<close>: \<open>Inl\<close> would end the program.
\<close>

definition AABB_intersects :: "real \<Rightarrow> aabb \<Rightarrow> ray \<Rightarrow> error + (bool \<times> xreal \<times> xreal)" where
  "AABB_intersects eps box r = AABB_intersects_loop eps box r [0, 1, 2] (NegInf, PosInf)"

record plane =
  normal :: vec3
  distance :: real

text \<open>\<open>Plane()\<close>: the normal is \<open>Vector3::up()\<close>.\<close>

definition Plane_default :: plane where
  "Plane_default = \<lparr>normal = Vector3 0 1 0, distance = 0\<rparr>"

text \<open>
  \<open>Plane(normal, distance)\<close>. Both two-argument constructors are declared
  \<open>noexcept\<close> and call \<open>normalized()\<close>; \<open>Inl\<close> is the exception that
  escapes it (and ends the program).
\<close>

definition Plane_normal_distance :: "real \<Rightarrow> vec3 \<Rightarrow> real \<Rightarrow> error + plane" where
  "Plane_normal_distance eps n d =
     bind_err (Vector3_normalized eps n) (\<lambda>m. Inr \<lparr>normal = m, distance = d\<rparr>)"

text \<open>
  \<open>Plane(normal, point)\<close>. In both member initialisers the name \<open>normal\<close> is
  the constructor's parameter, which hides the member: the distance is computed
  from the vector as it was passed.
\<close>

definition Plane_normal_point :: "real \<Rightarrow> vec3 \<Rightarrow> vec3 \<Rightarrow> error + plane" where
  "Plane_normal_point eps n point =
     bind_err (Vector3_normalized eps n) (\<lambda>m. Inr \<lparr>normal = m, distance = - Vector3_dot n point\<rparr>)"

definition Plane_distanceToPoint :: "plane \<Rightarrow> vec3 \<Rightarrow> real" where
  "Plane_distanceToPoint pl point = Vector3_dot (normal pl) point + distance pl"

text \<open>
  \<open>Plane::intersects(ray, t)\<close>: the result and the output parameter \<open>t\<close>, whose
  value before the call is the last argument.
\<close>

definition Plane_intersects :: "real \<Rightarrow> plane \<Rightarrow> ray \<Rightarrow> real \<Rightarrow> bool \<times> real" where
  "Plane_intersects eps pl r t =
     (let denom = Vector3_dot (normal pl) (direction r)
      in if \<bar>denom\<bar> < eps then (False, t)
         else (let t = - (Vector3_dot (normal pl) (origin r) + distance pl) / denom
               in (t \<ge> 0, t)))"

record sphere =
  center :: vec3
  radius :: real

definition Sphere :: "vec3 \<Rightarrow> real \<Rightarrow> sphere" where
  "Sphere c rad = \<lparr>center = c, radius = rad\<rparr>"

definition Sphere_contains :: "sphere \<Rightarrow> vec3 \<Rightarrow> bool" where
  "Sphere_contains s point =
     (Vector3_lengthSquared (Vector3_sub point (center s)) \<le> radius s * radius s)"

definition Sphere_intersects :: "sphere \<Rightarrow> ray \<Rightarrow> real \<Rightarrow> bool \<times> real" where
  "Sphere_intersects s r t =
     (let m = Vector3_sub (origin r) (center s);
          b = Vector3_dot m (direction r);
          c = Vector3_dot m m - radius s * radius s
      in if c > 0 \<and> b > 0 then (False, t)
         else (let discriminant = b * b - c
               in if discriminant < 0 then (False, t)
                  else (let t = - b - sqrt discriminant
                        in (True, if t < 0 then 0 else t))))"

subsection \<open>Matrix4x4\<close>

text \<open>
  \<open>std::array<std::array<T, 4>, 4> data\<close>, row-major: a list of four rows of
  four entries. \<open>operator()(row, col)\<close> is \<open>data[row][col]\<close> without a
  bounds check; every call in the source passes a literal or a loop index below 4.
\<close>

type_synonym matrix4x4 = "real list list"

text \<open>The default constructor, \<open>setIdentity\<close> and \<open>identity()\<close> all give this value.\<close>

definition Matrix4x4_identity :: matrix4x4 where
  "Matrix4x4_identity = [[1, 0, 0, 0], [0, 1, 0, 0], [0, 0, 1, 0], [0, 0, 0, 1]]"

definition Matrix4x4_at :: "matrix4x4 \<Rightarrow> nat \<Rightarrow> nat \<Rightarrow> real" where
  "Matrix4x4_at m row col = m ! row ! col"

text \<open>\<open>m(row, col) = a\<close>.\<close>

definition Matrix4x4_set :: "matrix4x4 \<Rightarrow> nat \<Rightarrow> nat \<Rightarrow> real \<Rightarrow> matrix4x4" where
  "Matrix4x4_set m row col a = m[row := (m ! row)[col := a]]"

definition Matrix4x4_mul :: "matrix4x4 \<Rightarrow> matrix4x4 \<Rightarrow> matrix4x4" where
  "Matrix4x4_mul a b =
     fold (\<lambda>i. fold (\<lambda>j result.
             fold (\<lambda>k result.
                     Matrix4x4_set result i j
                       (Matrix4x4_at result i j + Matrix4x4_at a i k * Matrix4x4_at b k j))
                  [0, 1, 2, 3] (Matrix4x4_set result i j 0))
           [0, 1, 2, 3])
       [0, 1, 2, 3] Matrix4x4_identity"

definition Matrix4x4_scaling :: "vec3 \<Rightarrow> matrix4x4" where
  "Matrix4x4_scaling scale =
     (let result = Matrix4x4_identity;
          result = Matrix4x4_set result 0 0 (x3 scale);
          result = Matrix4x4_set result 1 1 (y3 scale);
          result = Matrix4x4_set result 2 2 (z3 scale)
      in result)"

text \<open>
  \<open>Matrix4x4::inverse\<close>. \<open>inv\<close> is default-constructed, so it starts as the
  identity; the four assignments set its column 0; the loop multiplies all
  sixteen entries by \<open>1 / det\<close>.
\<close>

definition Matrix4x4_inverse :: "real \<Rightarrow> matrix4x4 \<Rightarrow> error + matrix4x4" where
  "Matrix4x4_inverse eps m =
     (let d = Matrix4x4_at m;
          inv = Matrix4x4_identity;
          inv = Matrix4x4_set inv 0 0
                 (d 1 1 * d 2 2 * d 3 3 -
                  d 1 1 * d 2 3 * d 3 2 -
                  d 2 1 * d 1 2 * d 3 3 +
                  d 2 1 * d 1 3 * d 3 2 +
                  d 3 1 * d 1 2 * d 2 3 -
                  d 3 1 * d 1 3 * d 2 2);
          inv = Matrix4x4_set inv 1 0
                 (- d 1 0 * d 2 2 * d 3 3 +
                  d 1 0 * d 2 3 * d 3 2 +
                  d 2 0 * d 1 2 * d 3 3 -
                  d 2 0 * d 1 3 * d 3 2 -
                  d 3 0 * d 1 2 * d 2 3 +
                  d 3 0 * d 1 3 * d 2 2);
          inv = Matrix4x4_set inv 2 0
                 (d 1 0 * d 2 1 * d 3 3 -
                  d 1 0 * d 2 3 * d 3 1 -
                  d 2 0 * d 1 1 * d 3 3 +
                  d 2 0 * d 1 3 * d 3 1 +
                  d 3 0 * d 1 1 * d 2 3 -
                  d 3 0 * d 1 3 * d 2 1);
          inv = Matrix4x4_set inv 3 0
                 (- d 1 0 * d 2 1 * d 3 2 +
                  d 1 0 * d 2 2 * d 3 1 +
                  d 2 0 * d 1 1 * d 3 2 -
                  d 2 0 * d 1 2 * d 3 1 -
                  d 3 0 * d 1 1 * d 2 2 +
                  d 3 0 * d 1 2 * d 2 1);
          det = d 0 0 * Matrix4x4_at inv 0 0 + d 0 1 * Matrix4x4_at inv 1 0 +
                d 0 2 * Matrix4x4_at inv 2 0 + d 0 3 * Matrix4x4_at inv 3 0
      in if \<bar>det\<bar> < eps then Inl SingularMatrix
         else (let det = 1 / det
               in Inr (fold (\<lambda>i. fold (\<lambda>j inv. Matrix4x4_set inv i j (Matrix4x4_at inv i j * det))
                                    [0, 1, 2, 3])
                         [0, 1, 2, 3] inv)))"

definition Matrix4x4_perspective :: "real \<Rightarrow> real \<Rightarrow> real \<Rightarrow> real \<Rightarrow> matrix4x4" where
  "Matrix4x4_perspective fov aspectRatio near far =
     (let result = Matrix4x4_identity;
          tanHalfFov = tan (fov / 2);
          result = Matrix4x4_set result 0 0 (1 / (aspectRatio * tanHalfFov));
          result = Matrix4x4_set result 1 1 (1 / tanHalfFov);
          result = Matrix4x4_set result 2 2 (- (far + near) / (far - near));
          result = Matrix4x4_set result 2 3 (- (2 * far * near) / (far - near));
          result = Matrix4x4_set result 3 2 (- 1);
          result = Matrix4x4_set result 3 3 0
      in result)"

text \<open>\<open>Matrix4x4::determinant\<close>: the cofactor expansion along row 0.\<close>

definition Matrix4x4_determinant :: "matrix4x4 \<Rightarrow> real" where
  "Matrix4x4_determinant m =
     (let d = Matrix4x4_at m
      in d 0 0 * (d 1 1 * d 2 2 * d 3 3 + d 1 2 * d 2 3 * d 3 1 + d 1 3 * d 2 1 * d 3 2
                - d 1 3 * d 2 2 * d 3 1 - d 1 1 * d 2 3 * d 3 2 - d 1 2 * d 2 1 * d 3 3)
       - d 0 1 * (d 1 0 * d 2 2 * d 3 3 + d 1 2 * d 2 3 * d 3 0 + d 1 3 * d 2 0 * d 3 2
                - d 1 3 * d 2 2 * d 3 0 - d 1 0 * d 2 3 * d 3 2 - d 1 2 * d 2 0 * d 3 3)
       + d 0 2 * (d 1 0 * d 2 1 * d 3 3 + d 1 1 * d 2 3 * d 3 0 + d 1 3 * d 2 0 * d 3 1
                - d 1 3 * d 2 1 * d 3 0 - d 1 0 * d 2 3 * d 3 1 - d 1 1 * d 2 0 * d 3 3)
       - d 0 3 * (d 1 0 * d 2 1 * d 3 2 + d 1 1 * d 2 2 * d 3 0 + d 1 2 * d 2 0 * d 3 1
                - d 1 2 * d 2 1 * d 3 0 - d 1 0 * d 2 2 * d 3 1 - d 1 1 * d 2 0 * d 3 2))"

subsection \<open>Quaternion\<close>

record quaternion =
  qw :: real
  qx :: real
  qy :: real
  qz :: real

definition Quaternion :: "real \<Rightarrow> real \<Rightarrow> real \<Rightarrow> real \<Rightarrow> quaternion" where
  "Quaternion w x y z = \<lparr>qw = w, qx = x, qy = y, qz = z\<rparr>"

definition Quaternion_magnitude :: "quaternion \<Rightarrow> real" where
  "Quaternion_magnitude q = sqrt (qw q * qw q + qx q * qx q + qy q * qy q + qz q * qz q)"

definition Quaternion_normalized :: "real \<Rightarrow> quaternion \<Rightarrow> error + quaternion" where
  "Quaternion_normalized eps q =
     (let mag = Quaternion_magnitude q
      in if mag < eps then Inl DegenerateNormalize
         else Inr (Quaternion (qw q / mag) (qx q / mag) (qy q / mag) (qz q / mag)))"

definition Quaternion_slerp :: "real \<Rightarrow> quaternion \<Rightarrow> quaternion \<Rightarrow> real \<Rightarrow> error + quaternion" where
  "Quaternion_slerp eps q1 q2 t =
     (let q2_adj = q2;
          dot = qw q1 * qw q2 + qx q1 * qx q2 + qy q1 * qy q2 + qz q1 * qz q2;
          (q2_adj, dot) = (if dot < 0
                           then (Quaternion (- qw q2) (- qx q2) (- qy q2) (- qz q2), - dot)
                           else (q2_adj, dot))
      in if dot > 9995 / 10000 then
           Quaternion_normalized eps
             (Quaternion (qw q1 + t * (qw q2_adj - qw q1))
                         (qx q1 + t * (qx q2_adj - qx q1))
                         (qy q1 + t * (qy q2_adj - qy q1))
                         (qz q1 + t * (qz q2_adj - qz q1)))
         else
           (let theta_0 = arccos dot;
                theta = theta_0 * t;
                sin_theta = sin theta;
                sin_theta_0 = sin theta_0;
                s0 = cos theta - dot * sin_theta / sin_theta_0;
                s1 = sin_theta / sin_theta_0
            in Inr (Quaternion (s0 * qw q1 + s1 * qw q2_adj)
                               (s0 * qx q1 + s1 * qx q2_adj)
                               (s0 * qy q1 + s1 * qy q2_adj)
                               (s0 * qz q1 + s1 * qz q2_adj))))"

subsection \<open>Frustum\<close>

text \<open>
  \<open>std::array<Plane<T>, 6> planes\<close> is a list of six planes. The two loops of
  \<open>Frustum::updatePlanes\<close> use indices below 6 only.
\<close>

type_synonym frustum = "plane list"

text \<open>\<open>Frustum() = default\<close>: six default-constructed planes.\<close>

definition Frustum_default :: frustum where
  "Frustum_default = replicate 6 Plane_default"

text \<open>\<open>planes[k].normal[i] = a\<close>.\<close>

definition set_normal :: "nat \<Rightarrow> int \<Rightarrow> real \<Rightarrow> frustum \<Rightarrow> error + frustum" where
  "set_normal k i a planes =
     bind_err (Vector3_index_assign i a (normal (planes ! k)))
       (\<lambda>n. Inr (planes[k := (planes ! k)\<lparr>normal := n\<rparr>]))"

text \<open>The body of the first loop, for one \<open>i\<close>.\<close>

definition Frustum_normals_step :: "matrix4x4 \<Rightarrow> int \<Rightarrow> frustum \<Rightarrow> error + frustum" where
  "Frustum_normals_step vp i planes =
     (let m = Matrix4x4_at vp (nat i)
      in bind_err (set_normal 0 i (m 2 + m 3) planes) (\<lambda>planes.
         bind_err (set_normal 1 i (- m 2 + m 3) planes) (\<lambda>planes.
         bind_err (set_normal 2 i (m 0 + m 3) planes) (\<lambda>planes.
         bind_err (set_normal 3 i (- m 0 + m 3) planes) (\<lambda>planes.
         bind_err (set_normal 4 i (m 1 + m 3) planes) (\<lambda>planes.
                   set_normal 5 i (- m 1 + m 3) planes))))))"

text \<open>
  The body of the second loop, for one \<open>i\<close>: the distance is assigned, then the
  normal and the distance are divided by the normal's length. The division of
  the normal is \<open>Vector3::operator/=\<close>, which may throw.
\<close>

definition Frustum_normalize_step :: "real \<Rightarrow> matrix4x4 \<Rightarrow> nat \<Rightarrow> frustum \<Rightarrow> error + frustum" where
  "Frustum_normalize_step eps vp i planes =
     (let planes = planes[i := (planes ! i)
                     \<lparr>distance := Matrix4x4_at vp 3 3 - Matrix4x4_at vp 3 (i div 2)\<rparr>];
          len = Vector3_length (normal (planes ! i))
      in case Vector3_div_assign eps len (normal (planes ! i)) of
           (Some e, n) \<Rightarrow> Inl e
         | (None, n) \<Rightarrow>
             (let planes = planes[i := (planes ! i)\<lparr>normal := n\<rparr>];
                  planes = planes[i := (planes ! i)\<lparr>distance := distance (planes ! i) / len\<rparr>]
              in Inr planes))"

text \<open>
  A \<open>for\<close> loop over the given indices whose body may throw.
  \<open>updatePlanes\<close> is \<open>noexcept\<close>, so \<open>Inl\<close> is an exception that ends
  the program (a normal shorter than epsilon in the second loop).
\<close>

fun for_each :: "('i \<Rightarrow> 's \<Rightarrow> error + 's) \<Rightarrow> 'i list \<Rightarrow> 's \<Rightarrow> error + 's" where
  "for_each body [] s = Inr s"
| "for_each body (i # is) s = bind_err (body i s) (for_each body is)"

definition Frustum_updatePlanes :: "real \<Rightarrow> matrix4x4 \<Rightarrow> frustum \<Rightarrow> error + frustum" where
  "Frustum_updatePlanes eps vp planes =
     bind_err (for_each (Frustum_normals_step vp) [0, 1, 2] planes)
       (for_each (Frustum_normalize_step eps vp) [0, 1, 2, 3, 4, 5])"

text \<open>\<open>Frustum(viewProjection)\<close>: the planes are default-constructed, then updated.\<close>

definition Frustum :: "real \<Rightarrow> matrix4x4 \<Rightarrow> error + frustum" where
  "Frustum eps vp = Frustum_updatePlanes eps vp Frustum_default"

section \<open>Properties\<close>

subsection \<open>Auxiliary facts\<close>

lemma stmt_simps:
  "seq (throw_when True e) g s = (Some e, s)"
  "seq (throw_when False e) g s = g s"
  "seq (assign f) g s = g (f s)"
  by (simp_all add: seq_def throw_when_def assign_def)

lemma epsilon_float_bounds: "0 < epsilon_float" "epsilon_float \<le> 1"
  by (simp_all add: epsilon_float_def)

lemma Vector3_length_rat:
  "0 \<le> l \<Longrightarrow> a * a + b * b + c * c = l * l \<Longrightarrow> Vector3_length \<lparr>x3 = a, y3 = b, z3 = c\<rparr> = l"
  by (simp add: Vector3_length_def Vector3_lengthSquared_def real_sqrt_unique power2_eq_square)

lemma Vector3_normalized_unit:
  assumes "eps \<le> 1" "Vector3_length v = 1"
  shows "Vector3_normalized eps v = Inr v"
  using assms by (simp add: Vector3_normalized_def Vector3_div_def Vector3_def)

lemma unit_lengths:
  "Vector3_length (Vector3 0 1 0) = 1"
  "Vector3_length (Vector3 0 (- 1) 0) = 1"
  "Vector3_length (Vector3 1 0 0) = 1"
  by (simp_all add: Vector3_length_def Vector3_lengthSquared_def Vector3_def)

lemma Ray_unit:
  assumes "eps \<le> 1" "Vector3_length d = 1"
  shows "Ray eps p d = Inr \<lparr>origin = p, direction = d\<rparr>"
  by (simp add: Ray_def Vector3_normalized_unit [OF assms] bind_err_def)

subsection \<open>Matrix4x4\<close>

lemma scaling_2:
  "Matrix4x4_scaling (Vector3 2 2 2) = [[2, 0, 0, 0], [0, 2, 0, 0], [0, 0, 2, 0], [0, 0, 0, 1]]"
  by (simp add: Matrix4x4_scaling_def Matrix4x4_identity_def Matrix4x4_set_def Vector3_def)

lemma inverse_scaling_2:
  "Matrix4x4_inverse epsilon_float [[2, 0, 0, 0], [0, 2, 0, 0], [0, 0, 2, 0], [0, 0, 0, 1]]
     = Inr [[1 / 2, 0, 0, 0], [0, 1 / 8, 0, 0], [0, 0, 1 / 8, 0], [0, 0, 0, 1 / 8]]"
  by (simp add: Matrix4x4_inverse_def Matrix4x4_identity_def Matrix4x4_set_def
      Matrix4x4_at_def epsilon_float_def Let_def)

lemma mul_scaling_2:
  "Matrix4x4_mul [[2, 0, 0, 0], [0, 2, 0, 0], [0, 0, 2, 0], [0, 0, 0, 1]]
                 [[1 / 2, 0, 0, 0], [0, 1 / 8, 0, 0], [0, 0, 1 / 8, 0], [0, 0, 0, 1 / 8]]
     = [[1, 0, 0, 0], [0, 1 / 4, 0, 0], [0, 0, 1 / 4, 0], [0, 0, 0, 1 / 8]]"
  by (simp add: Matrix4x4_mul_def Matrix4x4_identity_def Matrix4x4_set_def Matrix4x4_at_def)

lemma determinant_scaling_2:
  "Matrix4x4_determinant [[2, 0, 0, 0], [0, 2, 0, 0], [0, 0, 2, 0], [0, 0, 0, 1]] = 8"
  by (simp add: Matrix4x4_determinant_def Matrix4x4_at_def Let_def)

text \<open>
  C1: for every 4x4 matrix \<open>M\<close> whose determinant has absolute value at least
  machine epsilon, \<open>M * M.inverse()\<close> is the identity matrix within epsilon.
  The code does not do this. For \<open>M = scaling(2, 2, 2)\<close> the determinant is 8,
  \<open>inverse()\<close> returns \<open>diag(1/2, 1/8, 1/8, 1/8)\<close> (column 0 of the adjugate
  and, elsewhere, the identity it started from, all divided by the determinant),
  and the product is \<open>diag(1, 1/4, 1/4, 1/8)\<close>.
\<close>

theorem Matrix4x4_inverse_scaling_not_inverse:
  "Matrix4x4_determinant (Matrix4x4_scaling (Vector3 2 2 2)) = 8 \<and>
   \<not> \<bar>8\<bar> < epsilon_float \<and>
   Matrix4x4_inverse epsilon_float (Matrix4x4_scaling (Vector3 2 2 2))
     = Inr [[1 / 2, 0, 0, 0], [0, 1 / 8, 0, 0], [0, 0, 1 / 8, 0], [0, 0, 0, 1 / 8]] \<and>
   Matrix4x4_mul (Matrix4x4_scaling (Vector3 2 2 2))
       [[1 / 2, 0, 0, 0], [0, 1 / 8, 0, 0], [0, 0, 1 / 8, 0], [0, 0, 0, 1 / 8]]
     = [[1, 0, 0, 0], [0, 1 / 4, 0, 0], [0, 0, 1 / 4, 0], [0, 0, 0, 1 / 8]] \<and>
   \<not> \<bar>Matrix4x4_at [[1, 0, 0, 0], [0, 1 / 4, 0, 0], [0, 0, 1 / 4, 0], [0, 0, 0, 1 / 8]] 1 1
        - Matrix4x4_at Matrix4x4_identity 1 1\<bar> < epsilon_float"
  by (simp add: scaling_2 inverse_scaling_2 mul_scaling_2 determinant_scaling_2)
    (simp add: Matrix4x4_at_def Matrix4x4_identity_def epsilon_float_def)


subsection \<open>Frustum\<close>

text \<open>
  The matrix that \<open>Matrix4x4::perspective(pi/2, 1, 1/4, 3/4)\<close> returns, and
  the run of \<open>Frustum::updatePlanes\<close> on it, loop by loop.
\<close>

lemma perspective_example:
  "Matrix4x4_perspective (pi / 2) 1 (1 / 4) (3 / 4)
     = [[1, 0, 0, 0], [0, 1, 0, 0], [0, 0, - 2, - (3 / 4)], [0, 0, - 1, 0]]"
  by (simp add: Matrix4x4_perspective_def Matrix4x4_identity_def Matrix4x4_set_def Let_def tan_45)

lemma example_normals:
  "for_each (Frustum_normals_step [[1, 0, 0, 0], [0, 1, 0, 0], [0, 0, - 2, - (3 / 4)], [0, 0, - 1, 0]])
     [0, 1, 2] Frustum_default = Inr
  [\<lparr>normal = \<lparr>x3 = 0, y3 = 0, z3 = - (11 / 4)\<rparr>, distance = 0\<rparr>,
   \<lparr>normal = \<lparr>x3 = 0, y3 = 0, z3 = 5 / 4\<rparr>, distance = 0\<rparr>,
   \<lparr>normal = \<lparr>x3 = 1, y3 = 0, z3 = - (3 / 4)\<rparr>, distance = 0\<rparr>,
   \<lparr>normal = \<lparr>x3 = - 1, y3 = 0, z3 = - (3 / 4)\<rparr>, distance = 0\<rparr>,
   \<lparr>normal = \<lparr>x3 = 0, y3 = 1, z3 = - (3 / 4)\<rparr>, distance = 0\<rparr>,
   \<lparr>normal = \<lparr>x3 = 0, y3 = - 1, z3 = - (3 / 4)\<rparr>, distance = 0\<rparr>]"
  by (simp add: Frustum_default_def Plane_default_def Frustum_normals_step_def set_normal_def
      Vector3_index_assign_def bind_err_def Matrix4x4_at_def Vector3_def Let_def numeral_eq_Suc)

lemma example_lengths:
  "Vector3_length \<lparr>x3 = 0, y3 = 0, z3 = - (11 / 4)\<rparr> = 11 / 4"
  "Vector3_length \<lparr>x3 = 0, y3 = 0, z3 = 5 / 4\<rparr> = 5 / 4"
  "Vector3_length \<lparr>x3 = 1, y3 = 0, z3 = - (3 / 4)\<rparr> = 5 / 4"
  "Vector3_length \<lparr>x3 = - 1, y3 = 0, z3 = - (3 / 4)\<rparr> = 5 / 4"
  "Vector3_length \<lparr>x3 = 0, y3 = 1, z3 = - (3 / 4)\<rparr> = 5 / 4"
  "Vector3_length \<lparr>x3 = 0, y3 = - 1, z3 = - (3 / 4)\<rparr> = 5 / 4"
  by (rule Vector3_length_rat; simp)+

lemma example_planes:
  "Frustum epsilon_float [[1, 0, 0, 0], [0, 1, 0, 0], [0, 0, - 2, - (3 / 4)], [0, 0, - 1, 0]] = Inr
     [\<lparr>normal = Vector3 0 0 (- 1), distance = 0\<rparr>,
      \<lparr>normal = Vector3 0 0 1, distance = 0\<rparr>,
      \<lparr>normal = Vector3 (4 / 5) 0 (- (3 / 5)), distance = 0\<rparr>,
      \<lparr>normal = Vector3 (- (4 / 5)) 0 (- (3 / 5)), distance = 0\<rparr>,
      \<lparr>normal = Vector3 0 (4 / 5) (- (3 / 5)), distance = 4 / 5\<rparr>,
      \<lparr>normal = Vector3 0 (- (4 / 5)) (- (3 / 5)), distance = 4 / 5\<rparr>]"
  unfolding Frustum_def Frustum_updatePlanes_def example_normals
  by (simp add: bind_err_def Matrix4x4_at_def Let_def Frustum_normalize_step_def example_lengths
     Vector3_div_assign_def seq_def throw_when_def assign_def epsilon_float_def Vector3_def)

text \<open>
  C2: for every view-projection matrix \<open>VP\<close>, \<open>Frustum::updatePlanes(VP)\<close>
  sets the six planes to the Gribb-Hartmann extraction, each normalized by the
  length of its normal; in particular each plane's distance coefficient is
  \<open>VP(3,3)\<close> plus or minus the entry of row 3 in the column used for that
  plane's normal. The code does not do this: the distance of plane \<open>i\<close> is
  \<open>VP(3,3) - VP(3, i / 2)\<close>, always a difference and with the columns
  0, 0, 1, 1, 2, 2, while the normals use the columns 2, 2, 0, 0, 1, 1. On the
  perspective matrix above, plane 0 (normal from column 2, length \<open>11/4\<close>) gets
  the distance 0, where \<open>VP(3,3) + VP(3,2) = -1\<close> and \<open>VP(3,3) - VP(3,2) = 1\<close>;
  planes 4 and 5 (normals from column 1, where \<open>VP(3,1) = 0\<close>) get \<open>4/5\<close>.
\<close>

theorem Frustum_updatePlanes_perspective:
  "Frustum epsilon_float (Matrix4x4_perspective (pi / 2) 1 (1 / 4) (3 / 4)) = Inr
     [\<lparr>normal = Vector3 0 0 (- 1), distance = 0\<rparr>,
      \<lparr>normal = Vector3 0 0 1, distance = 0\<rparr>,
      \<lparr>normal = Vector3 (4 / 5) 0 (- (3 / 5)), distance = 0\<rparr>,
      \<lparr>normal = Vector3 (- (4 / 5)) 0 (- (3 / 5)), distance = 0\<rparr>,
      \<lparr>normal = Vector3 0 (4 / 5) (- (3 / 5)), distance = 4 / 5\<rparr>,
      \<lparr>normal = Vector3 0 (- (4 / 5)) (- (3 / 5)), distance = 4 / 5\<rparr>] \<and>
   Matrix4x4_at (Matrix4x4_perspective (pi / 2) 1 (1 / 4) (3 / 4)) 3 3
     + Matrix4x4_at (Matrix4x4_perspective (pi / 2) 1 (1 / 4) (3 / 4)) 3 2 = - 1 \<and>
   Matrix4x4_at (Matrix4x4_perspective (pi / 2) 1 (1 / 4) (3 / 4)) 3 3
     - Matrix4x4_at (Matrix4x4_perspective (pi / 2) 1 (1 / 4) (3 / 4)) 3 2 = 1"
  by (simp add: perspective_example example_planes) (simp add: Matrix4x4_at_def)

subsection \<open>Plane\<close>

text \<open>
  C3: for every vector \<open>n\<close> of non-near-zero length and every point \<open>p\<close>,
  the plane \<open>Plane(n, p)\<close> contains \<open>p\<close>: its \<open>distanceToPoint(p)\<close> is 0.
  The code does not do this when \<open>n\<close> is not a unit vector: the stored
  distance is \<open>-n.dot(p)\<close> for \<open>n\<close> as passed, the stored normal is
  normalized. For \<open>n = (0, 2, 0)\<close> and \<open>p = (0, 1, 0)\<close> the plane is
  \<open>normal = (0, 1, 0)\<close>, \<open>distance = -2\<close>, and \<open>distanceToPoint(p) = -1\<close>.
\<close>

theorem Plane_normal_point_misses_point:
  "\<not> Vector3_length (Vector3 0 2 0) < epsilon_float \<and>
   Plane_normal_point epsilon_float (Vector3 0 2 0) (Vector3 0 1 0)
     = Inr \<lparr>normal = Vector3 0 1 0, distance = - 2\<rparr> \<and>
   Plane_distanceToPoint \<lparr>normal = Vector3 0 1 0, distance = - 2\<rparr> (Vector3 0 1 0) = - 1"
  by (simp add: Plane_normal_point_def Plane_distanceToPoint_def Vector3_normalized_def
      Vector3_length_def Vector3_lengthSquared_def Vector3_div_def Vector3_dot_def Vector3_def
      bind_err_def epsilon_float_def)

text \<open>
  C6: for every plane and every ray, \<open>Plane::intersects(ray, t)\<close> returns
  false when \<open>|normal . direction|\<close> is below machine epsilon (and leaves
  \<open>t\<close> as it was), and otherwise sets
  \<open>t = -(normal . origin + distance) / (normal . direction)\<close> and returns true
  exactly when \<open>t \<ge> 0\<close>. For a machine epsilon of at most 1: the ray from
  \<open>(0, 5, 0)\<close> with direction \<open>(0, -1, 0)\<close> against the plane with normal
  \<open>(0, 1, 0)\<close> and distance 0 reports true with \<open>t = 5\<close>, and the reversed
  direction \<open>(0, 1, 0)\<close> reports false.
\<close>

theorem Plane_intersects_spec:
  "(\<bar>Vector3_dot (normal pl) (direction r)\<bar> < eps \<longrightarrow>
      Plane_intersects eps pl r t0 = (False, t0)) \<and>
   (\<not> \<bar>Vector3_dot (normal pl) (direction r)\<bar> < eps \<longrightarrow>
      Plane_intersects eps pl r t0 =
        (0 \<le> - (Vector3_dot (normal pl) (origin r) + distance pl) / Vector3_dot (normal pl) (direction r),
         - (Vector3_dot (normal pl) (origin r) + distance pl) / Vector3_dot (normal pl) (direction r))) \<and>
   (eps \<le> 1 \<longrightarrow>
      Plane_normal_distance eps (Vector3 0 1 0) 0 = Inr \<lparr>normal = Vector3 0 1 0, distance = 0\<rparr> \<and>
      Ray eps (Vector3 0 5 0) (Vector3 0 (- 1) 0)
        = Inr \<lparr>origin = Vector3 0 5 0, direction = Vector3 0 (- 1) 0\<rparr> \<and>
      Plane_intersects eps \<lparr>normal = Vector3 0 1 0, distance = 0\<rparr>
        \<lparr>origin = Vector3 0 5 0, direction = Vector3 0 (- 1) 0\<rparr> t0 = (True, 5) \<and>
      Ray eps (Vector3 0 5 0) (Vector3 0 1 0)
        = Inr \<lparr>origin = Vector3 0 5 0, direction = Vector3 0 1 0\<rparr> \<and>
      fst (Plane_intersects eps \<lparr>normal = Vector3 0 1 0, distance = 0\<rparr>
        \<lparr>origin = Vector3 0 5 0, direction = Vector3 0 1 0\<rparr> t0) = False)"
proof (intro conjI impI)
  assume e: "eps \<le> 1"
  show "Plane_normal_distance eps (Vector3 0 1 0) 0 = Inr \<lparr>normal = Vector3 0 1 0, distance = 0\<rparr>"
    by (simp add: Plane_normal_distance_def Vector3_normalized_unit [OF e] unit_lengths bind_err_def)
  show "Ray eps (Vector3 0 5 0) (Vector3 0 (- 1) 0)
        = Inr \<lparr>origin = Vector3 0 5 0, direction = Vector3 0 (- 1) 0\<rparr>"
    by (simp add: Ray_unit [OF e] unit_lengths)
  show "Ray eps (Vector3 0 5 0) (Vector3 0 1 0)
        = Inr \<lparr>origin = Vector3 0 5 0, direction = Vector3 0 1 0\<rparr>"
    by (simp add: Ray_unit [OF e] unit_lengths)
  show "Plane_intersects eps \<lparr>normal = Vector3 0 1 0, distance = 0\<rparr>
        \<lparr>origin = Vector3 0 5 0, direction = Vector3 0 (- 1) 0\<rparr> t0 = (True, 5)"
    using e by (simp add: Plane_intersects_def Vector3_dot_def Vector3_def Let_def)
  show "fst (Plane_intersects eps \<lparr>normal = Vector3 0 1 0, distance = 0\<rparr>
        \<lparr>origin = Vector3 0 5 0, direction = Vector3 0 1 0\<rparr> t0) = False"
    using e by (simp add: Plane_intersects_def Vector3_dot_def Vector3_def Let_def)
qed (simp_all add: Plane_intersects_def Let_def)

theorem Plane_intersects_spec_witness:
  "\<bar>Vector3_dot (Vector3 0 1 0) (Vector3 1 0 0)\<bar> < epsilon_float \<and>
   Plane_intersects epsilon_float \<lparr>normal = Vector3 0 1 0, distance = 0\<rparr>
     \<lparr>origin = Vector3 0 5 0, direction = Vector3 1 0 0\<rparr> 7 = (False, 7) \<and>
   \<not> \<bar>Vector3_dot (Vector3 0 1 0) (Vector3 0 (- 1) 0)\<bar> < epsilon_float \<and>
   Plane_intersects epsilon_float \<lparr>normal = Vector3 0 1 0, distance = 0\<rparr>
     \<lparr>origin = Vector3 0 5 0, direction = Vector3 0 (- 1) 0\<rparr> 7 = (True, 5) \<and>
   epsilon_float \<le> 1 \<and>
   fst (Plane_intersects epsilon_float \<lparr>normal = Vector3 0 1 0, distance = 0\<rparr>
     \<lparr>origin = Vector3 0 5 0, direction = Vector3 0 1 0\<rparr> 7) = False"
proof -
  have par: "\<bar>Vector3_dot (Vector3 0 1 0) (Vector3 1 0 0)\<bar> < epsilon_float"
    by (simp add: Vector3_dot_def Vector3_def epsilon_float_def)
  have hit: "\<not> \<bar>Vector3_dot (Vector3 0 1 0) (Vector3 0 (- 1) 0)\<bar> < epsilon_float"
    by (simp add: Vector3_dot_def Vector3_def epsilon_float_def)
  note e = epsilon_float_bounds(2)
  have 1: "Plane_intersects epsilon_float \<lparr>normal = Vector3 0 1 0, distance = 0\<rparr>
     \<lparr>origin = Vector3 0 5 0, direction = Vector3 1 0 0\<rparr> 7 = (False, 7)"
    using Plane_intersects_spec [of "\<lparr>normal = Vector3 0 1 0, distance = 0\<rparr>"
        "\<lparr>origin = Vector3 0 5 0, direction = Vector3 1 0 0\<rparr>" epsilon_float 7] par
    by simp
  have 2: "Plane_intersects epsilon_float \<lparr>normal = Vector3 0 1 0, distance = 0\<rparr>
       \<lparr>origin = Vector3 0 5 0, direction = Vector3 0 (- 1) 0\<rparr> 7 = (True, 5) \<and>
     fst (Plane_intersects epsilon_float \<lparr>normal = Vector3 0 1 0, distance = 0\<rparr>
       \<lparr>origin = Vector3 0 5 0, direction = Vector3 0 1 0\<rparr> 7) = False"
    using Plane_intersects_spec [of "\<lparr>normal = Vector3 0 1 0, distance = 0\<rparr>"
        "\<lparr>origin = Vector3 0 5 0, direction = Vector3 0 (- 1) 0\<rparr>" epsilon_float 7] e
    by blast
  from par hit e 1 2 show ?thesis
    by (intro conjI) simp_all
qed

subsection \<open>Quaternion\<close>

text \<open>
  C4, as stated: for every quaternion \<open>q\<close> and every \<open>t\<close>,
  \<open>Quaternion::slerp(q, q, t)\<close> returns \<open>q\<close> within epsilon. This fails for
  a quaternion that is not of unit length: for \<open>q = (2, 0, 0, 0)\<close> the dot
  product is 4, the linear branch renormalizes, and the result is
  \<open>(1, 0, 0, 0)\<close>.
\<close>

theorem Quaternion_slerp_same_nonunit:
  "Quaternion_slerp epsilon_float (Quaternion 2 0 0 0) (Quaternion 2 0 0 0) (1 / 2)
     = Inr (Quaternion 1 0 0 0) \<and>
   \<not> \<bar>qw (Quaternion 1 0 0 0) - qw (Quaternion 2 0 0 0)\<bar> < epsilon_float"
  by (simp add: Quaternion_slerp_def Quaternion_normalized_def Quaternion_magnitude_def
      Quaternion_def epsilon_float_def Let_def)

text \<open>
  C4, amended: for every quaternion \<open>q\<close> of magnitude 1 and every \<open>t\<close>,
  \<open>Quaternion::slerp(q, q, t)\<close> returns \<open>q\<close> (for a machine epsilon of at
  most 1).
\<close>

theorem Quaternion_slerp_same_unit:
  assumes "eps \<le> 1" and "Quaternion_magnitude q = 1"
  shows "Quaternion_slerp eps q q t = Inr q"
proof -
  obtain w x y z where q: "q = \<lparr>qw = w, qx = x, qy = y, qz = z\<rparr>"
    by (cases q)
  have sq: "w * w + x * x + y * y + z * z = 1"
    using assms(2) by (simp add: Quaternion_magnitude_def q)
  have mag: "Quaternion_magnitude \<lparr>qw = w, qx = x, qy = y, qz = z\<rparr> = 1"
    using assms(2) by (simp add: q)
  show ?thesis
    using assms(1)
    by (simp add: Quaternion_slerp_def q sq Quaternion_normalized_def mag Quaternion_def Let_def)
qed

theorem Quaternion_slerp_same_unit_witness:
  "epsilon_float \<le> 1 \<and> Quaternion_magnitude (Quaternion (3 / 5) (4 / 5) 0 0) = 1 \<and>
   Quaternion_slerp epsilon_float (Quaternion (3 / 5) (4 / 5) 0 0) (Quaternion (3 / 5) (4 / 5) 0 0) (1 / 3)
     = Inr (Quaternion (3 / 5) (4 / 5) 0 0)"
proof -
  have m: "Quaternion_magnitude (Quaternion (3 / 5) (4 / 5) 0 0) = 1"
    by (simp add: Quaternion_magnitude_def Quaternion_def)
  show ?thesis
    using Quaternion_slerp_same_unit [OF epsilon_float_bounds(2) m, of "1 / 3"] m
    by (simp add: epsilon_float_bounds)
qed

subsection \<open>Vector3::slerp\<close>











subsection \<open>AABB\<close>

text \<open>
  C7: for a machine epsilon in \<open>(0, 1]\<close>, \<open>AABB::intersects\<close> applied to
  the ray with origin \<open>(-5, 0, 0)\<close> and direction \<open>(1, 0, 0)\<close> and the box
  with min \<open>(-1, -1, -1)\<close> and max \<open>(1, 1, 1)\<close> returns true and sets
  \<open>tMin = 4\<close> and \<open>tMax = 6\<close>. Axis 0 narrows the interval to
  \<open>[4, 6]\<close>; on axes 1 and 2 the direction component is below epsilon, the
  origin lies within the slab, and the interval passes through unchanged.
\<close>

theorem AABB_intersects_example:
  assumes "0 < eps" and "eps \<le> 1"
  shows "Ray eps (Vector3 (- 5) 0 0) (Vector3 1 0 0)
           = Inr \<lparr>origin = Vector3 (- 5) 0 0, direction = Vector3 1 0 0\<rparr> \<and>
         AABB_intersects eps \<lparr>aabb_min = Vector3 (- 1) (- 1) (- 1), aabb_max = Vector3 1 1 1\<rparr>
           \<lparr>origin = Vector3 (- 5) 0 0, direction = Vector3 1 0 0\<rparr> = Inr (True, Fin 4, Fin 6) \<and>
         AABB_intersects_axis eps \<lparr>aabb_min = Vector3 (- 1) (- 1) (- 1), aabb_max = Vector3 1 1 1\<rparr>
           \<lparr>origin = Vector3 (- 5) 0 0, direction = Vector3 1 0 0\<rparr> 0 (NegInf, PosInf)
           = Inr (True, Fin 4, Fin 6) \<and>
         (\<forall>tt. AABB_intersects_axis eps \<lparr>aabb_min = Vector3 (- 1) (- 1) (- 1), aabb_max = Vector3 1 1 1\<rparr>
           \<lparr>origin = Vector3 (- 5) 0 0, direction = Vector3 1 0 0\<rparr> 1 tt = Inr (True, tt)) \<and>
         (\<forall>tt. AABB_intersects_axis eps \<lparr>aabb_min = Vector3 (- 1) (- 1) (- 1), aabb_max = Vector3 1 1 1\<rparr>
           \<lparr>origin = Vector3 (- 5) 0 0, direction = Vector3 1 0 0\<rparr> 2 tt = Inr (True, tt))"
  using assms
  by (simp add: Ray_unit unit_lengths)
     (simp add: bind_err_def AABB_intersects_def AABB_intersects_axis_def Vector3_index_def
        Vector3_def xreal_max_def xreal_min_def Let_def split: prod.split)

theorem AABB_intersects_example_witness:
  "0 < epsilon_float \<and> epsilon_float \<le> 1 \<and>
   AABB_intersects epsilon_float \<lparr>aabb_min = Vector3 (- 1) (- 1) (- 1), aabb_max = Vector3 1 1 1\<rparr>
     \<lparr>origin = Vector3 (- 5) 0 0, direction = Vector3 1 0 0\<rparr> = Inr (True, Fin 4, Fin 6)"
  using AABB_intersects_example [OF epsilon_float_bounds] epsilon_float_bounds
  by blast

subsection \<open>In-place operations that throw\<close>

text \<open>
  C8: in-place operations that signal errors are atomic. For every Vector2
  \<open>u\<close>, Vector3 \<open>v\<close> and scalar \<open>s\<close>: when \<open>|s|\<close> is below machine
  epsilon, \<open>v /= s\<close> and \<open>u /= s\<close> signal DivisionByZero; when the length is
  below machine epsilon, \<open>normalize()\<close> signals DegenerateNormalize; and
  whenever one of the four operations signals an error, the components of the
  vector are exactly as they were before the call.
\<close>

theorem failed_inplace_leaves_vector:
  "(\<bar>s\<bar> < eps \<longrightarrow> Vector3_div_assign eps s v = (Some DivisionByZero, v)) \<and>
   (Vector3_length v < eps \<longrightarrow> Vector3_normalize eps v = (Some DegenerateNormalize, v)) \<and>
   (\<bar>s\<bar> < eps \<longrightarrow> Vector2_div_assign eps s u = (Some DivisionByZero, u)) \<and>
   (Vector2_length u < eps \<longrightarrow> Vector2_normalize eps u = (Some DegenerateNormalize, u)) \<and>
   (fst (Vector3_div_assign eps s v) \<noteq> None \<longrightarrow> snd (Vector3_div_assign eps s v) = v) \<and>
   (fst (Vector3_normalize eps v) \<noteq> None \<longrightarrow> snd (Vector3_normalize eps v) = v) \<and>
   (fst (Vector2_div_assign eps s u) \<noteq> None \<longrightarrow> snd (Vector2_div_assign eps s u) = u) \<and>
   (fst (Vector2_normalize eps u) \<noteq> None \<longrightarrow> snd (Vector2_normalize eps u) = u)"
  by (cases "\<bar>s\<bar> < eps"; cases "Vector3_length v < eps"; cases "Vector2_length u < eps";
      cases "\<bar>Vector3_length v\<bar> < eps"; cases "\<bar>Vector2_length u\<bar> < eps";
      simp add: Vector3_div_assign_def Vector3_normalize_def Vector2_div_assign_def
        Vector2_normalize_def stmt_simps assign_def Let_def)

theorem failed_inplace_leaves_vector_witness:
  "\<bar>0 :: real\<bar> < epsilon_float \<and>
   Vector3_div_assign epsilon_float 0 (Vector3 1 2 3) = (Some DivisionByZero, Vector3 1 2 3) \<and>
   Vector2_div_assign epsilon_float 0 \<lparr>x2 = 1, y2 = 2\<rparr> = (Some DivisionByZero, \<lparr>x2 = 1, y2 = 2\<rparr>) \<and>
   Vector3_length (Vector3 0 0 0) < epsilon_float \<and>
   Vector3_normalize epsilon_float (Vector3 0 0 0) = (Some DegenerateNormalize, Vector3 0 0 0) \<and>
   Vector2_length \<lparr>x2 = 0, y2 = 0\<rparr> < epsilon_float \<and>
   Vector2_normalize epsilon_float \<lparr>x2 = 0, y2 = 0\<rparr> = (Some DegenerateNormalize, \<lparr>x2 = 0, y2 = 0\<rparr>)"
proof -
  have z: "\<bar>0 :: real\<bar> < epsilon_float"
    by (simp add: epsilon_float_def)
  have l3: "Vector3_length (Vector3 0 0 0) < epsilon_float"
    by (simp add: Vector3_length_def Vector3_lengthSquared_def Vector3_def epsilon_float_def)
  have l2: "Vector2_length \<lparr>x2 = 0, y2 = 0\<rparr> < epsilon_float"
    by (simp add: Vector2_length_def Vector2_lengthSquared_def epsilon_float_def)
  have d: "Vector3_div_assign epsilon_float 0 (Vector3 1 2 3) = (Some DivisionByZero, Vector3 1 2 3) \<and>
     Vector2_div_assign epsilon_float 0 \<lparr>x2 = 1, y2 = 2\<rparr> = (Some DivisionByZero, \<lparr>x2 = 1, y2 = 2\<rparr>)"
    using failed_inplace_leaves_vector [of 0 epsilon_float "Vector3 1 2 3" "\<lparr>x2 = 1, y2 = 2\<rparr>"] z
    by blast
  have n: "Vector3_normalize epsilon_float (Vector3 0 0 0) = (Some DegenerateNormalize, Vector3 0 0 0) \<and>
     Vector2_normalize epsilon_float \<lparr>x2 = 0, y2 = 0\<rparr> = (Some DegenerateNormalize, \<lparr>x2 = 0, y2 = 0\<rparr>)"
    using failed_inplace_leaves_vector [of 0 epsilon_float "Vector3 0 0 0" "\<lparr>x2 = 0, y2 = 0\<rparr>"] l3 l2
    by blast
  from z l3 l2 d n show ?thesis
    by (intro conjI) simp_all
qed

subsection \<open>Sphere\<close>

text \<open>
  C10: \<open>Sphere::contains\<close> and \<open>Sphere::intersects\<close> depend on the radius
  only through its square: for every center \<open>c\<close>, radius \<open>rad\<close>, point
  \<open>p\<close> and ray \<open>r\<close>, the spheres \<open>Sphere(c, rad)\<close> and
  \<open>Sphere(c, -rad)\<close> give the same results from \<open>contains(p)\<close> and from
  \<open>intersects(r, t)\<close>, the reported \<open>t\<close> included.
\<close>

theorem Sphere_radius_sign:
  "Sphere_contains (Sphere c (- rad)) p = Sphere_contains (Sphere c rad) p \<and>
   Sphere_intersects (Sphere c (- rad)) r t = Sphere_intersects (Sphere c rad) r t"
  by (simp add: Sphere_contains_def Sphere_intersects_def Sphere_def)

subsection \<open>Rect\<close>

text \<open>
  C9: for every two rectangles \<open>r1\<close> and \<open>r2\<close> that are disjoint
  (\<open>r1.intersects(r2)\<close> is false; touching edges count as disjoint),
  \<open>r1.intersection(r2)\<close> is the zero rectangle with
  \<open>x = y = width = height = 0\<close>.
\<close>

theorem Rect_intersection_disjoint:
  fixes r1 r2 :: "('a::linordered_idom) rect"
  assumes "\<not> Rect_intersects r1 r2"
  shows "Rect_intersection r1 r2 = \<lparr>rect_x = 0, rect_y = 0, width = 0, height = 0\<rparr>"
  using assms
  by (auto simp: Rect_intersects_def Rect_intersection_def Rect_default_def
      std_max_def std_min_def Let_def)

theorem Rect_intersection_disjoint_witness:
  "\<not> Rect_intersects \<lparr>rect_x = 0, rect_y = 0, width = 2, height = 2\<rparr>
                      \<lparr>rect_x = 2, rect_y = 0, width = 3, height = 1 :: int\<rparr>
   \<and> Rect_intersection \<lparr>rect_x = 0, rect_y = 0, width = 2, height = 2\<rparr>
                       \<lparr>rect_x = 2, rect_y = 0, width = 3, height = 1 :: int\<rparr>
     = \<lparr>rect_x = 0, rect_y = 0, width = 0, height = 0\<rparr>"
proof -
  have d: "\<not> Rect_intersects \<lparr>rect_x = 0, rect_y = 0, width = 2, height = 2\<rparr>
                      \<lparr>rect_x = 2, rect_y = 0, width = 3, height = 1 :: int\<rparr>"
    by (simp add: Rect_intersects_def right_def bottom_def)
  show ?thesis
    using d Rect_intersection_disjoint [OF d] by simp
qed

end
